theory Spec2Isabelle
  imports Main "HOL-Library.AList"
begin

section \<open>JavaScript values and errors\<close>

text \<open>
  The values that travel through \<^verbatim>\<open>src/server/server.js\<close>: socket payloads, the redux state
  handed to \<^verbatim>\<open>renderFullPage\<close>, the parsed webpack manifests. Numbers are the integer-valued
  ones; an object is its list of own properties in insertion order.
\<close>

datatype jsval =
    JUndefined
  | JNull
  | JBool bool
  | JNum int
  | JStr string
  | JArr "jsval list"
  | JObj "(string \<times> jsval) list"

text \<open>
  What the server can throw or pass to \<^verbatim>\<open>next(error)\<close>: the engine's \<^verbatim>\<open>TypeError\<close> (a property
  read on \<^verbatim>\<open>undefined\<close> or \<^verbatim>\<open>null\<close>), the \<^verbatim>\<open>SyntaxError\<close> of \<^verbatim>\<open>JSON.parse\<close>, and a failure
  of a collaborator (a rejected fetch, a throwing renderer) carrying its message.
\<close>

datatype error = TypeError | SyntaxError | Failure string

definition bind_err :: "error + 'a \<Rightarrow> ('a \<Rightarrow> error + 'b) \<Rightarrow> error + 'b" where
  "bind_err m f = (case m of Inl e \<Rightarrow> Inl e | Inr x \<Rightarrow> f x)"

text \<open>
  Property read \<^verbatim>\<open>v[k]\<close> (or \<^verbatim>\<open>v.k\<close>). It throws on \<^verbatim>\<open>undefined\<close> and \<^verbatim>\<open>null\<close>. The keys the server
  reads (\<^verbatim>\<open>type\<close>, \<^verbatim>\<open>post\<close>, \<^verbatim>\<open>comment\<close>, \<^verbatim>\<open>/app.css\<close>, \<^verbatim>\<open>/vendor.js\<close>, \<^verbatim>\<open>/app.js\<close>) are no built-in
  property of a string, number, boolean or array, so on those the read gives \<^verbatim>\<open>undefined\<close>;
  on an object it is the own-property lookup.
\<close>

fun get_prop :: "jsval \<Rightarrow> string \<Rightarrow> error + jsval" where
  "get_prop JUndefined k = Inl TypeError"
| "get_prop JNull k = Inl TypeError"
| "get_prop (JObj kvs) k = Inr (case map_of kvs k of None \<Rightarrow> JUndefined | Some v \<Rightarrow> v)"
| "get_prop v k = Inr JUndefined"

section \<open>The socket server (server.js, lines 164-199)\<close>

text \<open>A socket is identified by its object identity, here a number.\<close>

type_synonym socket = nat

subsection \<open>The \<^verbatim>\<open>clients\<close> array\<close>

text \<open>\<^verbatim>\<open>clients.push(socket)\<close>\<close>

definition register :: "socket \<Rightarrow> socket list \<Rightarrow> socket list" where
  "register s clients = clients @ [s]"

text \<open>\<^verbatim>\<open>Array.prototype.indexOf\<close>: the first index holding the element, \<^verbatim>\<open>-1\<close> when there is none.\<close>

fun indexOf :: "'a list \<Rightarrow> 'a \<Rightarrow> int" where
  "indexOf [] x = - 1"
| "indexOf (y # ys) x =
     (if y = x then 0 else (let i = indexOf ys x in if i < 0 then - 1 else i + 1))"

text \<open>
  \<^verbatim>\<open>Array.prototype.splice(start, deleteCount)\<close> with no inserted items: a negative \<^verbatim>\<open>start\<close>
  counts back from the end of the array, and the deletion stops at the end of the array.
\<close>

definition splice :: "int \<Rightarrow> nat \<Rightarrow> 'a list \<Rightarrow> 'a list" where
  "splice start deleteCount xs =
     (let len = int (length xs);
          at = nat (if start < 0 then max (len + start) 0 else min start len)
      in take at xs @ drop (at + deleteCount) xs)"

text \<open>
  The \<^verbatim>\<open>disconnect\<close> handler:
  \<^verbatim>\<open>const index = clients.indexOf(socket); clients.splice(index, 1);\<close>
\<close>

definition unregister :: "socket \<Rightarrow> socket list \<Rightarrow> socket list" where
  "unregister s clients = (let index = indexOf clients s in splice index 1 clients)"

subsection \<open>Emission\<close>

text \<open>An emitted socket.io event: its name and its arguments.\<close>

datatype message = Message string "jsval list"

type_synonym delivery = "socket \<times> message"

text \<open>
  The server: the module-level array \<^verbatim>\<open>clients\<close>, and the sockets that socket.io itself holds
  as connected (\<^verbatim>\<open>io.sockets\<close>), which the handlers never write.
\<close>

record server =
  clients :: "socket list"
  connected :: "socket list"

text \<open>
  \<^verbatim>\<open>io.sockets.emit(name, ...args)\<close> is socket.io's emission to every socket connected to the
  default namespace, the sender of the event being handled included.
\<close>

definition io_sockets_emit :: "server \<Rightarrow> message \<Rightarrow> delivery list" where
  "io_sockets_emit w m = map (\<lambda>s. (s, m)) (connected w)"

text \<open>
  One \<^verbatim>\<open>if (action.type === t) { io.sockets.emit('action', { type: T, f: action.f }); }\<close> of
  the \<^verbatim>\<open>action\<close> handler.
\<close>

definition relay_if :: "server \<Rightarrow> jsval \<Rightarrow> string \<Rightarrow> string \<Rightarrow> string \<Rightarrow> error + delivery list" where
  "relay_if w action t T f =
     bind_err (get_prop action ''type'') (\<lambda>ty.
       if ty = JStr t
       then bind_err (get_prop action f) (\<lambda>payload.
              Inr (io_sockets_emit w (Message ''action'' [JObj [(''type'', JStr T), (f, payload)]])))
       else Inr [])"

text \<open>
  The \<^verbatim>\<open>action\<close> handler of a socket: three \<^verbatim>\<open>if\<close> statements in sequence. The socket it is
  installed on is the first argument; the body never mentions it.
\<close>

definition on_action :: "server \<Rightarrow> socket \<Rightarrow> jsval \<Rightarrow> error + delivery list" where
  "on_action w origin action =
     bind_err (relay_if w action ''server/addPost'' ''ADD_POST'' ''post'') (\<lambda>d1.
     bind_err (relay_if w action ''server/updatePost'' ''UPDATE_POST'' ''post'') (\<lambda>d2.
     bind_err (relay_if w action ''server/addComment'' ''ADD_COMMENT'' ''comment'') (\<lambda>d3.
       Inr (d1 @ d2 @ d3))))"

text \<open>The two refresh handlers; neither takes an argument.\<close>

definition on_refresh_bloglist :: "server \<Rightarrow> socket \<Rightarrow> delivery list" where
  "on_refresh_bloglist w origin = io_sockets_emit w (Message ''refresh bloglist'' [])"

definition on_refresh_commentlist :: "server \<Rightarrow> socket \<Rightarrow> delivery list" where
  "on_refresh_commentlist w origin = io_sockets_emit w (Message ''refresh commentlist'' [])"

subsection \<open>Events of a socket\<close>

datatype client_event =
    Connection
  | Disconnect
  | Action jsval
  | RefreshBloglist
  | RefreshCommentlist

text \<open>
  What one event of socket \<open>s\<close> does to the server and which deliveries it causes. On a
  connection socket.io has added the socket to its connected set when the handler runs; on
  a disconnect it has removed it.
\<close>

fun on_event :: "server \<Rightarrow> socket \<Rightarrow> client_event \<Rightarrow> error + (server \<times> delivery list)" where
  "on_event w s Connection =
     Inr (w\<lparr>clients := register s (clients w), connected := connected w @ [s]\<rparr>, [])"
| "on_event w s Disconnect =
     Inr (w\<lparr>clients := unregister s (clients w), connected := removeAll s (connected w)\<rparr>, [])"
| "on_event w s (Action action) = bind_err (on_action w s action) (\<lambda>ds. Inr (w, ds))"
| "on_event w s RefreshBloglist = Inr (w, on_refresh_bloglist w s)"
| "on_event w s RefreshCommentlist = Inr (w, on_refresh_commentlist w s)"

text \<open>A run of events, stopping at the first uncaught error.\<close>

definition init_server :: server where
  "init_server = \<lparr>clients = [], connected = []\<rparr>"

fun run :: "server \<Rightarrow> (socket \<times> client_event) list \<Rightarrow> error + (server \<times> delivery list)" where
  "run w [] = Inr (w, [])"
| "run w ((s, e) # es) =
     bind_err (on_event w s e) (\<lambda>(w', ds).
       bind_err (run w' es) (\<lambda>(w'', ds'). Inr (w'', ds @ ds')))"

section \<open>The built-ins of the language that the page assembler calls\<close>

subsection \<open>Numbers and strings as text\<close>

definition digit_char :: "nat \<Rightarrow> char" where
  "digit_char d = char_of (48 + d)"

fun nat_digits :: "nat \<Rightarrow> string" where
  "nat_digits n = (if n < 10 then [digit_char n] else nat_digits (n div 10) @ [digit_char (n mod 10)])"

declare nat_digits.simps [simp del]

text \<open>\<^verbatim>\<open>Number.prototype.toString\<close> on an integer that prints in plain decimal.\<close>

definition number_to_string :: "int \<Rightarrow> string" where
  "number_to_string n = (if n < 0 then CHR ''-'' # nat_digits (nat (- n)) else nat_digits (nat n))"

fun join_comma :: "string list \<Rightarrow> string" where
  "join_comma [] = []"
| "join_comma [x] = x"
| "join_comma (x # y # ys) = x @ '','' @ join_comma (y # ys)"

text \<open>
  The string conversion of a template literal's \<^verbatim>\<open>${...}\<close>: an array joins the conversions of
  its elements with commas, \<^verbatim>\<open>undefined\<close> and \<^verbatim>\<open>null\<close> elements giving the empty string.
\<close>

fun to_string :: "jsval \<Rightarrow> string"
  and to_string_elements :: "jsval list \<Rightarrow> string list" where
  "to_string JUndefined = ''undefined''"
| "to_string JNull = ''null''"
| "to_string (JBool b) = (if b then ''true'' else ''false'')"
| "to_string (JNum n) = number_to_string n"
| "to_string (JStr s) = s"
| "to_string (JArr xs) = join_comma (to_string_elements xs)"
| "to_string (JObj kvs) = ''[object Object]''"
| "to_string_elements [] = []"
| "to_string_elements (x # xs) =
     (if x = JUndefined \<or> x = JNull then [] else to_string x) # to_string_elements xs"

subsection \<open>\<^verbatim>\<open>JSON.stringify\<close>\<close>

definition hex_char :: "nat \<Rightarrow> char" where
  "hex_char d = (if d < 10 then char_of (48 + d) else char_of (87 + d))"

text \<open>
  The escape of one character inside a JSON string: the quote and the backslash get a
  backslash, the control characters their short escape or \<^verbatim>\<open>\u00xx\<close>, every other
  character stands for itself.
\<close>

definition quote_char :: "char \<Rightarrow> string" where
  "quote_char c =
     (if c = CHR 0x22 then [CHR 0x5C, CHR 0x22]
      else if c = CHR 0x5C then [CHR 0x5C, CHR 0x5C]
      else if c = CHR 0x08 then [CHR 0x5C, CHR ''b'']
      else if c = CHR 0x0C then [CHR 0x5C, CHR ''f'']
      else if c = CHR 0x0A then [CHR 0x5C, CHR ''n'']
      else if c = CHR 0x0D then [CHR 0x5C, CHR ''r'']
      else if c = CHR 0x09 then [CHR 0x5C, CHR ''t'']
      else if (of_char c :: nat) < 32
        then [CHR 0x5C, CHR ''u'', CHR ''0'', CHR ''0'',
              hex_char (of_char c div 16), hex_char (of_char c mod 16)]
      else [c])"

definition quote :: "string \<Rightarrow> string" where
  "quote s = CHR 0x22 # concat (map quote_char s) @ [CHR 0x22]"

text \<open>
  \<^verbatim>\<open>JSON.stringify(v)\<close> with no replacer and no indentation. \<^verbatim>\<open>None\<close> is the result
  \<^verbatim>\<open>undefined\<close>: a property holding \<^verbatim>\<open>undefined\<close> is left out of its object, an array element
  holding it is written \<^verbatim>\<open>null\<close>.
\<close>

fun json_stringify :: "jsval \<Rightarrow> string option"
  and stringify_elements :: "jsval list \<Rightarrow> string list"
  and stringify_members :: "(string \<times> jsval) list \<Rightarrow> string list" where
  "json_stringify JUndefined = None"
| "json_stringify JNull = Some ''null''"
| "json_stringify (JBool b) = Some (if b then ''true'' else ''false'')"
| "json_stringify (JNum n) = Some (number_to_string n)"
| "json_stringify (JStr s) = Some (quote s)"
| "json_stringify (JArr xs) = Some (''['' @ join_comma (stringify_elements xs) @ '']'')"
| "json_stringify (JObj kvs) = Some (''{'' @ join_comma (stringify_members kvs) @ ''}'')"
| "stringify_elements [] = []"
| "stringify_elements (x # xs) =
     (case json_stringify x of None \<Rightarrow> ''null'' | Some t \<Rightarrow> t) # stringify_elements xs"
| "stringify_members [] = []"
| "stringify_members ((k, v) # kvs) =
     (case json_stringify v of
        None \<Rightarrow> stringify_members kvs
      | Some t \<Rightarrow> (quote k @ '':'' @ t) # stringify_members kvs)"

text \<open>A template literal converts the \<^verbatim>\<open>undefined\<close> that \<^verbatim>\<open>JSON.stringify\<close> may return.\<close>

definition template_text :: "string option \<Rightarrow> string" where
  "template_text r = (case r of None \<Rightarrow> ''undefined'' | Some t \<Rightarrow> t)"

subsection \<open>\<^verbatim>\<open>JSON.parse\<close>\<close>

definition is_ws :: "char \<Rightarrow> bool" where
  "is_ws c = (c = CHR 0x20 \<or> c = CHR 0x09 \<or> c = CHR 0x0A \<or> c = CHR 0x0D)"

definition skip_ws :: "string \<Rightarrow> string" where
  "skip_ws s = dropWhile is_ws s"

definition is_digit :: "char \<Rightarrow> bool" where
  "is_digit c = (48 \<le> (of_char c :: nat) \<and> (of_char c :: nat) \<le> 57)"

definition digit_val :: "char \<Rightarrow> nat" where
  "digit_val c = of_char c - 48"

definition hex_val :: "char \<Rightarrow> nat option" where
  "hex_val c =
     (let n = (of_char c :: nat)
      in if 48 \<le> n \<and> n \<le> 57 then Some (n - 48)
         else if 97 \<le> n \<and> n \<le> 102 then Some (n - 87)
         else if 65 \<le> n \<and> n \<le> 70 then Some (n - 55)
         else None)"

text \<open>
  A number: an optional minus sign and decimal digits, with no leading zero. Fractions
  and exponents are outside the values modelled: reading stops before them.
\<close>

definition parse_number :: "string \<Rightarrow> (jsval \<times> string) option" where
  "parse_number s =
     (let neg = (s \<noteq> [] \<and> hd s = CHR ''-'');
          t = (if neg then tl s else s);
          ds = takeWhile is_digit t;
          n = foldl (\<lambda>a c. 10 * a + digit_val c) 0 ds
      in if ds = [] \<or> (hd ds = CHR ''0'' \<and> tl ds \<noteq> []) then None
         else Some (JNum (if neg then - int n else int n), dropWhile is_digit t))"

text \<open>
  The characters of a string after its opening quote, up to the closing quote. A
  \<^verbatim>\<open>\uXXXX\<close> beyond the characters of type \<^typ>\<open>char\<close> is outside the values modelled.
\<close>

fun parse_chars :: "string \<Rightarrow> (string \<times> string) option" where
  "parse_chars [] = None"
| "parse_chars (c # cs) =
     (if c = CHR 0x22 then Some ([], cs)
      else if c = CHR 0x5C then
        (case cs of
           [] \<Rightarrow> None
         | e # r \<Rightarrow>
             if e = CHR ''u'' then
               (case r of
                  h1 # h2 # h3 # h4 # r' \<Rightarrow>
                    (case (hex_val h1, hex_val h2, hex_val h3, hex_val h4) of
                       (Some a, Some b, Some c', Some d) \<Rightarrow>
                         (let n = ((a * 16 + b) * 16 + c') * 16 + d
                          in if n < 256
                             then map_option (\<lambda>(t, rest). (char_of n # t, rest)) (parse_chars r')
                             else None)
                     | _ \<Rightarrow> None)
                | _ \<Rightarrow> None)
             else
               (case (if e = CHR 0x22 then Some (CHR 0x22)
                      else if e = CHR 0x5C then Some (CHR 0x5C)
                      else if e = CHR ''/'' then Some (CHR ''/'')
                      else if e = CHR ''b'' then Some (CHR 0x08)
                      else if e = CHR ''f'' then Some (CHR 0x0C)
                      else if e = CHR ''n'' then Some (CHR 0x0A)
                      else if e = CHR ''r'' then Some (CHR 0x0D)
                      else if e = CHR ''t'' then Some (CHR 0x09)
                      else None) of
                  None \<Rightarrow> None
                | Some x \<Rightarrow> map_option (\<lambda>(t, rest). (x # t, rest)) (parse_chars r)))
      else if (of_char c :: nat) < 32 then None
      else map_option (\<lambda>(t, rest). (c # t, rest)) (parse_chars cs))"

text \<open>
  The value at the head of a text, with the text left after it. The first argument bounds
  the number of nested calls; \<open>json_parse\<close> below gives it the length of the text, which is
  never reached.
\<close>

fun parse_value :: "nat \<Rightarrow> string \<Rightarrow> (jsval \<times> string) option"
  and parse_elements :: "nat \<Rightarrow> string \<Rightarrow> (jsval list \<times> string) option"
  and parse_members :: "nat \<Rightarrow> string \<Rightarrow> ((string \<times> jsval) list \<times> string) option" where
  "parse_value 0 s = None"
| "parse_value (Suc n) s =
     (case skip_ws s of
        [] \<Rightarrow> None
      | c # cs \<Rightarrow>
          if c = CHR 0x22 then map_option (\<lambda>(t, r). (JStr t, r)) (parse_chars cs)
          else if c = CHR ''['' then
            (case skip_ws cs of
               [] \<Rightarrow> None
             | d # ds \<Rightarrow>
                 if d = CHR '']'' then Some (JArr [], ds)
                 else map_option (\<lambda>(xs, r). (JArr xs, r)) (parse_elements n (d # ds)))
          else if c = CHR ''{'' then
            (case skip_ws cs of
               [] \<Rightarrow> None
             | d # ds \<Rightarrow>
                 if d = CHR ''}'' then Some (JObj [], ds)
                 else map_option
                        (\<lambda>(kvs, r). (JObj (foldl (\<lambda>acc (k, v). AList.update k v acc) [] kvs), r))
                        (parse_members n (d # ds)))
          else if c = CHR ''-'' \<or> is_digit c then parse_number (c # cs)
          else if take 4 (c # cs) = ''null'' then Some (JNull, drop 4 (c # cs))
          else if take 4 (c # cs) = ''true'' then Some (JBool True, drop 4 (c # cs))
          else if take 5 (c # cs) = ''false'' then Some (JBool False, drop 5 (c # cs))
          else None)"
| "parse_elements 0 s = None"
| "parse_elements (Suc n) s =
     (case parse_value n s of
        None \<Rightarrow> None
      | Some (v, r) \<Rightarrow>
          (case skip_ws r of
             [] \<Rightarrow> None
           | c # cs \<Rightarrow>
               if c = CHR '','' then map_option (\<lambda>(vs, r'). (v # vs, r')) (parse_elements n cs)
               else if c = CHR '']'' then Some ([v], cs)
               else None))"
| "parse_members 0 s = None"
| "parse_members (Suc n) s =
     (case skip_ws s of
        [] \<Rightarrow> None
      | q # s1 \<Rightarrow>
          if q \<noteq> CHR 0x22 then None
          else
            (case parse_chars s1 of
               None \<Rightarrow> None
             | Some (k, s2) \<Rightarrow>
                 (case skip_ws s2 of
                    [] \<Rightarrow> None
                  | colon # s3 \<Rightarrow>
                      if colon \<noteq> CHR '':'' then None
                      else
                        (case parse_value n s3 of
                           None \<Rightarrow> None
                         | Some (v, r) \<Rightarrow>
                             (case skip_ws r of
                                [] \<Rightarrow> None
                              | c # cs \<Rightarrow>
                                  if c = CHR '','' then
                                    map_option (\<lambda>(kvs, r'). ((k, v) # kvs, r')) (parse_members n cs)
                                  else if c = CHR ''}'' then Some ([(k, v)], cs)
                                  else None)))))"

text \<open>\<^verbatim>\<open>JSON.parse(text)\<close>; \<^verbatim>\<open>None\<close> is its \<^verbatim>\<open>SyntaxError\<close>.\<close>

definition json_parse :: "string \<Rightarrow> jsval option" where
  "json_parse s =
     (case parse_value (length s) s of
        None \<Rightarrow> None
      | Some (v, r) \<Rightarrow> if skip_ws r = [] then Some v else None)"

section \<open>The page assembler (server.js, lines 68-111)\<close>

text \<open>
  What \<^verbatim>\<open>Helmet.rewind()\<close> returns: the head fragments that the last rendering left with
  react-helmet, each already converted by its \<^verbatim>\<open>toString()\<close>.
\<close>

record head =
  base :: string
  title :: string
  meta :: string
  link :: string
  script :: string

text \<open>The three variables of \<^verbatim>\<open>process.env\<close> that the assembler reads; \<^verbatim>\<open>None\<close> is unset.\<close>

record env =
  NODE_ENV :: "string option"
  webpackAssets :: "string option"
  webpackChunkAssets :: "string option"

text \<open>
  The mutable state of the process outside the function's arguments: the head that
  react-helmet holds, the environment, and \<^verbatim>\<open>global.navigator\<close>, which the request handler
  assigns.
\<close>

record globals =
  helmet :: head
  process_env :: env
  navigator :: "string option option"

text \<open>
  \<^verbatim>\<open>Helmet.rewind()\<close> is modelled as the read of what react-helmet holds. The library also
  clears its record on that call; no property below concerns a second call.
\<close>

definition Helmet_rewind :: "globals \<Rightarrow> head" where
  "Helmet_rewind g = helmet g"

definition production :: "globals \<Rightarrow> bool" where
  "production g = (NODE_ENV (process_env g) = Some ''production'')"

text \<open>
  \<^verbatim>\<open>process.env.X && JSON.parse(process.env.X)\<close>: an unset or empty variable is the value of
  the conjunction itself.
\<close>

definition parse_manifest :: "string option \<Rightarrow> error + jsval" where
  "parse_manifest var =
     (case var of
        None \<Rightarrow> Inr JUndefined
      | Some t \<Rightarrow>
          if t = [] then Inr (JStr [])
          else (case json_parse t of None \<Rightarrow> Inl SyntaxError | Some v \<Rightarrow> Inr v))"

definition nl :: string where
  "nl = [CHR 0x0A]"

text \<open>The template of \<^verbatim>\<open>renderFullPage\<close> up to the text \<^verbatim>\<open>window.__INITIAL_STATE__ = \<close>.\<close>

definition page_top :: "head \<Rightarrow> string \<Rightarrow> string \<Rightarrow> string" where
  \<open>page_top h css html = concat
     [nl,
      ''    <!doctype html>'', nl,
      ''    <html>'', nl,
      ''      <head>'', nl,
      ''        '', base h, nl,
      ''        '', title h, nl,
      ''        '', meta h, nl,
      ''        '', link h, nl,
      ''        '', script h, nl,
      nl,
      ''        '', css, nl,
      ''        <link href='', [CHR 0x27],
        ''https://fonts.googleapis.com/css?family=Lato:400,300,700'', [CHR 0x27],
        '' rel='', [CHR 0x27], ''stylesheet'', [CHR 0x27],
        '' type='', [CHR 0x27], ''text/css'', [CHR 0x27], ''/>'', nl,
      ''        <link rel="shortcut icon" href="http://res.cloudinary.com/hashnode/image/upload/v1455629445/static_imgs/mern/mern-favicon-circle-fill.png" type="image/png" />'', nl,
      ''      </head>'', nl,
      ''      <body>'', nl,
      ''        <div id="root">'', html, ''</div>'', nl,
      ''        <script>'', nl,
      ''          window.__INITIAL_STATE__ = '']\<close>

text \<open>The rest of the template, from the semicolon after the serialized state.\<close>

definition page_bottom :: "string \<Rightarrow> string \<Rightarrow> string \<Rightarrow> string" where
  \<open>page_bottom chunk vendor app = concat
     ['';'', nl,
      ''          '', chunk, nl,
      ''        </script>'', nl,
      ''        <script src='', [CHR 0x27], vendor, [CHR 0x27], ''></script>'', nl,
      ''        <script src='', [CHR 0x27], app, [CHR 0x27], ''></script>'', nl,
      ''      </body>'', nl,
      ''    </html>'', nl,
      ''  '']\<close>

text \<open>
  \<^verbatim>\<open>renderFullPage(html, initialState)\<close>. The interpolations are evaluated in the order of the
  template; a manifest that is \<^verbatim>\<open>undefined\<close> makes the first read of it throw in production.
\<close>

definition renderFullPage :: "globals \<Rightarrow> string \<Rightarrow> jsval \<Rightarrow> error + string" where
  \<open>renderFullPage g html initialState =
     (let head = Helmet_rewind g in
      bind_err (parse_manifest (webpackAssets (process_env g))) (\<lambda>assetsManifest.
      bind_err (parse_manifest (webpackChunkAssets (process_env g))) (\<lambda>chunkManifest.
      bind_err (if production g
                then bind_err (get_prop assetsManifest ''/app.css'') (\<lambda>href.
                       Inr (''<link rel='' @ [CHR 0x27] @ ''stylesheet'' @ [CHR 0x27] @ '' href=''
                            @ [CHR 0x27] @ to_string href @ [CHR 0x27] @ '' />''))
                else Inr []) (\<lambda>css.
      let state = template_text (json_stringify initialState);
          chunk = (if production g
                   then ''//<![CDATA['' @ nl @ ''          window.webpackManifest = ''
                        @ template_text (json_stringify chunkManifest) @ '';'' @ nl
                        @ ''          //]]>''
                   else [])
      in
      bind_err (if production g
                then bind_err (get_prop assetsManifest ''/vendor.js'') (\<lambda>v. Inr (to_string v))
                else Inr ''/vendor.js'') (\<lambda>vendor.
      bind_err (if production g
                then bind_err (get_prop assetsManifest ''/app.js'') (\<lambda>v. Inr (to_string v))
                else Inr ''/app.js'') (\<lambda>app.
      Inr (page_top head css html @ state @ page_bottom chunk vendor app)))))))\<close>

text \<open>\<^verbatim>\<open>str.replace(/\n/g, by)\<close>\<close>

definition replace_newlines :: "string \<Rightarrow> string \<Rightarrow> string" where
  "replace_newlines by str = concat (map (\<lambda>c. if c = CHR 0x0A then by else [c]) str)"

text \<open>\<^verbatim>\<open>renderError(err)\<close>; the error is given by its \<^verbatim>\<open>stack\<close>, the one field read.\<close>

definition renderError :: "globals \<Rightarrow> string \<Rightarrow> error + string" where
  \<open>renderError g stack =
     (let softTab = ''&#32;&#32;&#32;&#32;'';
          errTrace = (if \<not> production g
                      then '':<br><br><pre style="color:red">'' @ softTab
                           @ replace_newlines (''<br>'' @ softTab) stack @ ''</pre>''
                      else [])
      in renderFullPage g (''Server Error'' @ errTrace) (JObj []))\<close>

section \<open>The request handler (server.js, lines 113-155)\<close>

record location =
  pathname :: string
  search :: string

text \<open>
  The three arguments with which react-router's \<^verbatim>\<open>match\<close> calls back; \<^verbatim>\<open>None\<close> is a falsy
  argument. The error is given by its stack, the render properties are opaque.
\<close>

record 'p match_result =
  err :: "string option"
  redirectLocation :: "location option"
  renderProps :: "'p option"

record request =
  url :: string
  user_agent :: "string option"

text \<open>The calls to its collaborators that the handler makes, in order.\<close>

datatype call = FetchComponentData | RenderToString | RenderFullPage

text \<open>
  How the handler leaves the request: a response with status, headers set and body; a
  redirect; \<^verbatim>\<open>next()\<close>; \<^verbatim>\<open>next(error)\<close>; or an exception thrown out of the callback.
\<close>

datatype response =
    Respond nat "(string \<times> string) list" string
  | Redirect nat string
  | Next
  | NextError error
  | Throw error

text \<open>
  The handler, given what its collaborators answer when called: \<open>fetched\<close> is the outcome
  of \<^verbatim>\<open>fetchComponentData\<close> on the fresh store (the rejection, or the store's state once all
  requirements are in), \<open>rendered\<close> the outcome of \<^verbatim>\<open>renderToString\<close> (the exception, or the
  markup, the head it left with react-helmet, and the store's state afterwards).
\<close>

definition ssr_handler ::
  "globals \<Rightarrow> request \<Rightarrow> 'p match_result \<Rightarrow> (error + jsval) \<Rightarrow>
   (error + string \<times> head \<times> jsval) \<Rightarrow> globals \<times> call list \<times> response" where
  "ssr_handler g req m fetched rendered =
     (case err m of
        Some stack \<Rightarrow>
          (case renderError g stack of
             Inl e \<Rightarrow> (g, [RenderFullPage], Throw e)
           | Inr doc \<Rightarrow> (g, [RenderFullPage], Respond 500 [] doc))
      | None \<Rightarrow>
          (case redirectLocation m of
             Some loc \<Rightarrow> (g, [], Redirect 302 (pathname loc @ search loc))
           | None \<Rightarrow>
               (case renderProps m of
                  None \<Rightarrow> (g, [], Next)
                | Some props \<Rightarrow>
                    (let g1 = g\<lparr>navigator := Some (user_agent req)\<rparr> in
                     case fetched of
                       Inl error \<Rightarrow> (g1, [FetchComponentData], NextError error)
                     | Inr fetchedState \<Rightarrow>
                         (case rendered of
                            Inl error \<Rightarrow>
                              (g1, [FetchComponentData, RenderToString], NextError error)
                          | Inr (initialView, h, finalState) \<Rightarrow>
                              (let g2 = g1\<lparr>helmet := h\<rparr> in
                               case renderFullPage g2 initialView finalState of
                                 Inl error \<Rightarrow>
                                   (g2, [FetchComponentData, RenderToString, RenderFullPage],
                                    NextError error)
                               | Inr doc \<Rightarrow>
                                   (g2, [FetchComponentData, RenderToString, RenderFullPage],
                                    Respond 200 [(''Content-Type'', ''text/html'')] doc)))))))"

section \<open>Notions used to state the properties\<close>

text \<open>
  The three branches of the \<^verbatim>\<open>action\<close> handler as a table: the type received, the type
  emitted, and the payload field copied.
\<close>

definition mutation_kinds :: "(string \<times> string \<times> string) list" where
  "mutation_kinds =
     [(''server/addPost'', ''ADD_POST'', ''post''),
      (''server/updatePost'', ''UPDATE_POST'', ''post''),
      (''server/addComment'', ''ADD_COMMENT'', ''comment'')]"

text \<open>What a socket receives from a list of deliveries, and whom an event of a socket reaches.\<close>

definition received :: "socket \<Rightarrow> delivery list \<Rightarrow> message list" where
  "received s ds = map snd (filter (\<lambda>d. fst d = s) ds)"

definition fanout_targets :: "server \<Rightarrow> socket \<Rightarrow> client_event \<Rightarrow> socket list" where
  "fanout_targets w h e = (case on_event w h e of Inl x \<Rightarrow> [] | Inr (w', ds) \<Rightarrow> map fst ds)"

text \<open>
  A run in which socket.io delivers the life-cycle events as it documents them: a socket
  connects while it is not connected, and sends events and disconnects only while it is.
  The first argument is the list of sockets connected so far.
\<close>

fun well_formed :: "socket list \<Rightarrow> (socket \<times> client_event) list \<Rightarrow> bool" where
  "well_formed cs [] = True"
| "well_formed cs ((s, Connection) # es) = (s \<notin> set cs \<and> well_formed (cs @ [s]) es)"
| "well_formed cs ((s, Disconnect) # es) = (s \<in> set cs \<and> well_formed (removeAll s cs) es)"
| "well_formed cs ((s, e) # es) = (s \<in> set cs \<and> well_formed cs es)"




subsection \<open>Sample inputs\<close>

text \<open>A development process with no manifest in its environment.\<close>

definition development_globals :: globals where
  "development_globals =
     \<lparr>helmet = \<lparr>base = [], title = ''<title>MERN</title>'', meta = [], link = [], script = []\<rparr>,
      process_env = \<lparr>NODE_ENV = Some ''development'', webpackAssets = None,
                     webpackChunkAssets = None\<rparr>,
      navigator = None\<rparr>"

definition other_title_globals :: globals where
  "other_title_globals =
     development_globals\<lparr>helmet := (helmet development_globals)\<lparr>title := ''<title>Other</title>''\<rparr>\<rparr>"

definition three_connected :: server where
  "three_connected = \<lparr>clients = [1, 2, 3], connected = [1, 2, 3]\<rparr>"

definition add_post_7 :: jsval where
  "add_post_7 = JObj [(''type'', JStr ''server/addPost''), (''post'', JObj [(''id'', JNum 7)])]"

definition post_added_7 :: message where
  "post_added_7 =
     Message ''action'' [JObj [(''type'', JStr ''ADD_POST''), (''post'', JObj [(''id'', JNum 7)])]]"

definition post_42_request :: request where
  "post_42_request = \<lparr>url = ''/posts/42'', user_agent = None\<rparr>"

definition post_42_match :: "unit match_result" where
  "post_42_match = \<lparr>err = None, redirectLocation = None, renderProps = Some ()\<rparr>"

definition post_42_state :: jsval where
  "post_42_state =
     JObj [(''posts'', JObj [(''42'', JObj [(''id'', JNum 42), (''title'', JStr ''X'')])])]"


section \<open>Auxiliary facts\<close>

subsection \<open>The registry and the handlers\<close>

lemma bind_err_Inr [simp]: "bind_err (Inr x) f = f x"
  by (simp add: bind_err_def)

lemma bind_err_Inl [simp]: "bind_err (Inl e) f = Inl e"
  by (simp add: bind_err_def)

lemma indexOf_absent: "x \<notin> set xs \<Longrightarrow> indexOf xs x = - 1"
  by (induction xs) (auto simp: Let_def)

lemma indexOf_present: "x \<in> set xs \<Longrightarrow> 0 \<le> indexOf xs x \<and> indexOf xs x < int (length xs)"
  by (induction xs) (auto simp: Let_def)

lemma splice_one_present:
  "x \<in> set xs \<Longrightarrow> splice (indexOf xs x) 1 xs = remove1 x xs"
proof (induction xs)
  case Nil then show ?case by simp
next
  case (Cons y ys)
  show ?case
  proof (cases "y = x")
    case True then show ?thesis by (simp add: splice_def)
  next
    case False
    with Cons.prems have mem: "x \<in> set ys" by simp
    from indexOf_present[OF mem] have b: "0 \<le> indexOf ys x" "indexOf ys x < int (length ys)" by auto
    from Cons.IH[OF mem] b have ih: "take (nat (indexOf ys x)) ys @ drop (Suc (nat (indexOf ys x))) ys = remove1 x ys"
      by (simp add: splice_def Let_def min_def)
    have n: "nat (indexOf ys x + 1) = Suc (nat (indexOf ys x))" using b by simp
    from False b show ?thesis
      by (simp add: splice_def Let_def min_def n ih)
  qed
qed

lemma unregister_present: "s \<in> set cs \<Longrightarrow> unregister s cs = remove1 s cs"
  unfolding unregister_def Let_def by (rule splice_one_present)

text \<open>For a handle that is absent, \<^verbatim>\<open>splice(-1, 1)\<close> drops the last element.\<close>

lemma unregister_absent: "s \<notin> set cs \<Longrightarrow> unregister s cs = butlast cs"
proof (cases cs rule: rev_cases)
  case Nil then show ?thesis by (simp add: unregister_def splice_def)
next
  case (snoc ys y)
  assume "s \<notin> set cs"
  then show ?thesis using snoc
    by (simp add: unregister_def indexOf_absent splice_def Let_def)
qed

lemma relay_if_hit:
  "get_prop action ''type'' = Inr (JStr t) \<Longrightarrow> get_prop action f = Inr p \<Longrightarrow>
   relay_if w action t T f = Inr (io_sockets_emit w (Message ''action'' [JObj [(''type'', JStr T), (f, p)]]))"
  by (simp add: relay_if_def)

lemma relay_if_miss:
  "get_prop action ''type'' = Inr ty \<Longrightarrow> ty \<noteq> JStr t \<Longrightarrow> relay_if w action t T f = Inr []"
  by (simp add: relay_if_def)

lemma get_prop_total: "get_prop action k = Inr v \<Longrightarrow> \<exists>p. get_prop action k' = Inr p"
  by (cases action) auto

text \<open>
  As long as socket.io delivers the life-cycle events of each socket once and in order, the
  array \<^verbatim>\<open>clients\<close> and the sockets that \<^verbatim>\<open>io.sockets\<close> holds are the same list.
\<close>

lemma run_invariant:
  "well_formed (connected w) es \<Longrightarrow> clients w = connected w \<Longrightarrow> distinct (connected w) \<Longrightarrow>
   run w es = Inr (w', ds) \<Longrightarrow> clients w' = connected w' \<and> distinct (connected w')"
proof (induction es arbitrary: w ds)
  case Nil
  then show ?case by simp
next
  case (Cons se es)
  obtain s e where se: "se = (s, e)" by (cases se)
  show ?case
  proof (cases e)
    case Connection
    with Cons.prems se
    have "run (w\<lparr>clients := register s (clients w), connected := connected w @ [s]\<rparr>) es = Inr (w', ds)"
      by (auto simp: bind_err_def split: sum.splits prod.splits)
    moreover from Cons.prems se Connection
    have "well_formed (connected w @ [s]) es" "s \<notin> set (connected w)" by auto
    ultimately show ?thesis
      using Cons.IH[of "w\<lparr>clients := register s (clients w), connected := connected w @ [s]\<rparr>" ds] Cons.prems(2,3)
      by (simp add: register_def)
  next
    case Disconnect
    with Cons.prems se
    have "run (w\<lparr>clients := unregister s (clients w), connected := removeAll s (connected w)\<rparr>) es = Inr (w', ds)"
      by (auto simp: bind_err_def split: sum.splits prod.splits)
    moreover from Cons.prems se Disconnect
    have "well_formed (removeAll s (connected w)) es" "s \<in> set (connected w)" by auto
    ultimately show ?thesis
      using Cons.IH[of "w\<lparr>clients := unregister s (clients w), connected := removeAll s (connected w)\<rparr>" ds] Cons.prems(2,3)
      by (simp add: unregister_present distinct_remove1_removeAll distinct_removeAll)
  next
    case (Action x)
    with Cons.prems se obtain d1 d2 where "on_action w s x = Inr d1" "run w es = Inr (w', d2)"
      by (auto simp: bind_err_def split: sum.splits prod.splits)
    moreover from Cons.prems se Action have "well_formed (connected w) es" by simp
    ultimately show ?thesis using Cons.IH[of w d2] Cons.prems(2,3) by simp
  next
    case RefreshBloglist
    with Cons.prems se obtain d2 where "run w es = Inr (w', d2)"
      by (auto simp: bind_err_def split: sum.splits prod.splits)
    moreover from Cons.prems se RefreshBloglist have "well_formed (connected w) es" by simp
    ultimately show ?thesis using Cons.IH[of w d2] Cons.prems(2,3) by simp
  next
    case RefreshCommentlist
    with Cons.prems se obtain d2 where "run w es = Inr (w', d2)"
      by (auto simp: bind_err_def split: sum.splits prod.splits)
    moreover from Cons.prems se RefreshCommentlist have "well_formed (connected w) es" by simp
    ultimately show ?thesis using Cons.IH[of w d2] Cons.prems(2,3) by simp
  qed
qed

subsection \<open>Numbers\<close>

lemma digit_char_props: "d < 10 \<Longrightarrow> is_digit (digit_char d) \<and> digit_val (digit_char d) = d"
  by (simp add: is_digit_def digit_val_def digit_char_def)

lemma nat_digits_not_Nil: "nat_digits n \<noteq> []"
  by (subst nat_digits.simps) simp

lemma nat_digits_all_digits: "c \<in> set (nat_digits n) \<Longrightarrow> is_digit c"
proof (induction n rule: nat_digits.induct)
  case (1 n)
  show ?case
  proof (cases "n < 10")
    case True
    with "1.prems" show ?thesis
      by (subst (asm) nat_digits.simps) (simp add: digit_char_props)
  next
    case False
    with "1.prems" have "c \<in> set (nat_digits (n div 10)) \<or> c = digit_char (n mod 10)"
      by (subst (asm) nat_digits.simps) auto
    with "1.IH" False show ?thesis
      by (auto simp: digit_char_props)
  qed
qed



lemma digit_not_special:
  "is_digit c \<Longrightarrow> c \<noteq> CHR 0x22 \<and> c \<noteq> CHR ''['' \<and> c \<noteq> CHR ''{'' \<and> c \<noteq> CHR ''-'' \<and> \<not> is_ws c"
  by (auto simp: is_digit_def is_ws_def)









subsection \<open>Reading back what \<^verbatim>\<open>JSON.stringify\<close> wrote\<close>

lemma skip_ws_nonws: "\<not> is_ws c \<Longrightarrow> skip_ws (c # cs) = c # cs"
  by (simp add: skip_ws_def)

lemma skip_ws_digits: "skip_ws (nat_digits n @ rest) = nat_digits n @ rest"
proof -
  obtain d ds where ds: "nat_digits n = d # ds"
    using nat_digits_not_Nil[of n] by (cases "nat_digits n") auto
  then have "is_digit d" using nat_digits_all_digits[of d n] by simp
  then show ?thesis using ds by (simp add: skip_ws_nonws digit_not_special)
qed










lemma quote_Cons: "quote s = CHR 0x22 # concat (map quote_char s) @ [CHR 0x22]"
  by (simp add: quote_def)








subsection \<open>The page\<close>

lemma renderFullPage_shape:
  assumes "renderFullPage g html st = Inr doc"
  shows "\<exists>css chunk vendor app.
           doc = page_top (helmet g) css html @ template_text (json_stringify st)
                 @ page_bottom chunk vendor app"
  using assms
  by (auto simp: renderFullPage_def Helmet_rewind_def bind_err_def Let_def
      split: sum.splits if_splits)

lemma renderFullPage_development:
  assumes "\<not> production g" "webpackAssets (process_env g) = None"
    "webpackChunkAssets (process_env g) = None"
  shows "renderFullPage g html st =
         Inr (page_top (helmet g) [] html @ template_text (json_stringify st)
              @ page_bottom [] ''/vendor.js'' ''/app.js'')"
  using assms by (simp add: renderFullPage_def Helmet_rewind_def parse_manifest_def)

lemma renderFullPage_reads:
  assumes "helmet g = helmet g'" "process_env g = process_env g'"
  shows "renderFullPage g html st = renderFullPage g' html st"
  using assms by (simp add: renderFullPage_def Helmet_rewind_def production_def)


subsection \<open>The handlers on known and unknown types; sample facts\<close>

lemma received_map:
  "distinct xs \<Longrightarrow> received s (map (\<lambda>x. (x, m)) xs) = (if s \<in> set xs then [m] else [])"
  by (induction xs) (auto simp: received_def)

lemma on_action_kind:
  assumes ty: "get_prop action ''type'' = Inr (JStr t)"
    and k: "(t, T, f) \<in> set mutation_kinds"
    and p: "get_prop action f = Inr p"
  shows "on_action w a action
         = Inr (map (\<lambda>s. (s, Message ''action'' [JObj [(''type'', JStr T), (f, p)]])) (connected w))"
proof -
  from k consider
      "t = ''server/addPost''" "T = ''ADD_POST''" "f = ''post''"
    | "t = ''server/updatePost''" "T = ''UPDATE_POST''" "f = ''post''"
    | "t = ''server/addComment''" "T = ''ADD_COMMENT''" "f = ''comment''"
    by (auto simp: mutation_kinds_def)
  then show ?thesis
  proof cases
    case 1
    with ty p show ?thesis
      by (simp add: on_action_def relay_if_hit relay_if_miss io_sockets_emit_def)
  next
    case 2
    with ty p show ?thesis
      by (simp add: on_action_def relay_if_hit relay_if_miss io_sockets_emit_def)
  next
    case 3
    with ty p show ?thesis
      by (simp add: on_action_def relay_if_hit relay_if_miss io_sockets_emit_def)
  qed
qed

lemma on_action_other:
  assumes "get_prop action ''type'' = Inr ty"
    and "ty \<notin> {JStr ''server/addPost'', JStr ''server/updatePost'', JStr ''server/addComment''}"
  shows "on_action w a action = Inr []"
  using assms by (simp add: on_action_def relay_if_miss)

lemma register_then_unregister: "h \<notin> set cs \<Longrightarrow> unregister h (register h cs) = cs"
  by (simp add: register_def unregister_present remove1_append)

lemma development_globals_facts:
  "\<not> production development_globals"
  "webpackAssets (process_env development_globals) = None"
  "webpackChunkAssets (process_env development_globals) = None"
  by (simp_all add: development_globals_def production_def)



section \<open>The claims\<close>

subsection \<open>C1: relay of a mutation event\<close>

text \<open>
  Claim C1 as stated (the translated event reaches every registered connection other than
  the sender and never the sender) fails: with sockets 1, 2 and 3 connected, the event
  \<^verbatim>\<open>{type: 'server/addPost', post: {id: 7}}\<close> of socket 1 is delivered to 1, 2 and 3.
\<close>

theorem action_echoed_to_origin:
  "on_action three_connected 1 add_post_7 = Inr [(1, post_added_7), (2, post_added_7), (3, post_added_7)]"
  by (simp add: on_action_def relay_if_def io_sockets_emit_def three_connected_def add_post_7_def
      post_added_7_def)

text \<open>
  Claim C1, amended: for every \<^verbatim>\<open>action\<close> event whose type is one of the three mutation
  kinds, the handler emits the translated event (public type, payload field copied) once
  to every socket connected to \<^verbatim>\<open>io.sockets\<close>, the sender included; a socket that is not
  connected receives nothing.
\<close>

theorem action_relayed_to_all_connected:
  assumes "get_prop action ''type'' = Inr (JStr t)"
    and "(t, T, f) \<in> set mutation_kinds"
    and "get_prop action f = Inr p"
    and "distinct (connected w)"
    and "m = Message ''action'' [JObj [(''type'', JStr T), (f, p)]]"
  shows "on_action w a action = Inr (map (\<lambda>s. (s, m)) (connected w))
         \<and> (\<forall>s. received s (map (\<lambda>s. (s, m)) (connected w))
                 = (if s \<in> set (connected w) then [m] else []))"
  using assms on_action_kind[of action t T f p w a] by (simp add: received_map)

text \<open>Claim C1, amended, on the scenario of three connections of which the first sends.\<close>

theorem action_relayed_to_all_connected_witness:
  "on_action three_connected 1 add_post_7 = Inr (map (\<lambda>s. (s, post_added_7)) (connected three_connected))
   \<and> (\<forall>s. received s (map (\<lambda>s. (s, post_added_7)) (connected three_connected))
           = (if s \<in> set (connected three_connected) then [post_added_7] else []))"
proof (rule action_relayed_to_all_connected)
  show "get_prop add_post_7 ''type'' = Inr (JStr ''server/addPost'')"
    by (simp add: add_post_7_def)
  show "(''server/addPost'', ''ADD_POST'', ''post'') \<in> set mutation_kinds"
    by (simp add: mutation_kinds_def)
  show "get_prop add_post_7 ''post'' = Inr (JObj [(''id'', JNum 7)])"
    by (simp add: add_post_7_def)
  show "distinct (connected three_connected)"
    by (simp add: three_connected_def)
  show "post_added_7 = Message ''action'' [JObj [(''type'', JStr ''ADD_POST''), (''post'', JObj [(''id'', JNum 7)])]]"
    by (simp add: post_added_7_def)
qed

subsection \<open>C2: a failing data requirement\<close>

text \<open>
  Claim C2 as stated (a failing data requirement gives a 500 response whose document
  embeds an empty object) fails: on a matched route whose prefetch is rejected, the handler
  emits no response and calls \<^verbatim>\<open>next(error)\<close>.
\<close>

theorem prefetch_failure_not_rendered:
  "ssr_handler development_globals post_42_request post_42_match
     (Inl (Failure ''post 42 not found'')) (Inl TypeError)
   = (development_globals\<lparr>navigator := Some None\<rparr>, [FetchComponentData],
      NextError (Failure ''post 42 not found''))"
  by (simp add: ssr_handler_def post_42_match_def post_42_request_def)

text \<open>
  Claim C2, amended: when the route matches and the data prefetch fails, the handler renders
  nothing and hands the error to the next handler with \<^verbatim>\<open>next(error)\<close>; the 500 response
  whose document embeds \<^verbatim>\<open>{}\<close> as the state is what the handler emits when route matching
  itself reports an error.
\<close>

theorem prefetch_failure_passed_to_next:
  "(err m = None \<and> redirectLocation m = None \<and> renderProps m = Some p \<and> fetched = Inl e \<longrightarrow>
      ssr_handler g req m fetched rendered
      = (g\<lparr>navigator := Some (user_agent req)\<rparr>, [FetchComponentData], NextError e))
   \<and> (err m = Some stack \<and> renderError g stack = Inr doc \<longrightarrow>
      ssr_handler g req m fetched rendered = (g, [RenderFullPage], Respond 500 [] doc)
      \<and> (\<exists>css html chunk vendor app.
            doc = page_top (helmet g) css html @ ''{}'' @ page_bottom chunk vendor app))"
proof (intro conjI impI)
  assume "err m = None \<and> redirectLocation m = None \<and> renderProps m = Some p \<and> fetched = Inl e"
  then show "ssr_handler g req m fetched rendered
      = (g\<lparr>navigator := Some (user_agent req)\<rparr>, [FetchComponentData], NextError e)"
    by (simp add: ssr_handler_def)
next
  assume a: "err m = Some stack \<and> renderError g stack = Inr doc"
  then show "ssr_handler g req m fetched rendered = (g, [RenderFullPage], Respond 500 [] doc)"
    by (simp add: ssr_handler_def)
  from a obtain html where "renderFullPage g html (JObj []) = Inr doc"
    by (auto simp: renderError_def Let_def)
  from renderFullPage_shape[OF this] obtain css chunk vendor app where
    "doc = page_top (helmet g) css html @ template_text (json_stringify (JObj []))
           @ page_bottom chunk vendor app"
    by blast
  moreover have "template_text (json_stringify (JObj [])) = ''{}''"
    by (simp add: template_text_def)
  ultimately have "doc = page_top (helmet g) css html @ ''{}'' @ page_bottom chunk vendor app"
    by simp
  then show "\<exists>css html chunk vendor app.
            doc = page_top (helmet g) css html @ ''{}'' @ page_bottom chunk vendor app"
    by blast
qed

text \<open>Claim C2, amended, on a rejected prefetch and on a matching error in development.\<close>

theorem prefetch_failure_passed_to_next_witness:
  \<open>ssr_handler development_globals post_42_request post_42_match
     (Inl (Failure ''post 42 not found'')) (Inl TypeError)
   = (development_globals\<lparr>navigator := Some (user_agent post_42_request)\<rparr>, [FetchComponentData],
      NextError (Failure ''post 42 not found''))
   \<and> ssr_handler development_globals post_42_request (post_42_match\<lparr>err := Some ''Error: boom''\<rparr>)
     (Inl (Failure ''post 42 not found'')) (Inl TypeError)
   = (development_globals, [RenderFullPage],
      Respond 500 []
        (page_top (helmet development_globals) []
           ''Server Error:<br><br><pre style="color:red">&#32;&#32;&#32;&#32;Error: boom</pre>''
         @ ''{}'' @ page_bottom [] ''/vendor.js'' ''/app.js''))\<close>
proof -
  have r: \<open>renderError development_globals ''Error: boom''
           = Inr (page_top (helmet development_globals) []
                    ''Server Error:<br><br><pre style="color:red">&#32;&#32;&#32;&#32;Error: boom</pre>''
                  @ ''{}'' @ page_bottom [] ''/vendor.js'' ''/app.js'')\<close>
    by (simp add: renderError_def replace_newlines_def development_globals_facts
        renderFullPage_development template_text_def)
  have a: "err post_42_match = None \<and> redirectLocation post_42_match = None
           \<and> renderProps post_42_match = Some ()
           \<and> (Inl (Failure ''post 42 not found'') :: error + jsval) = Inl (Failure ''post 42 not found'')"
    by (simp add: post_42_match_def)
  have b: "err (post_42_match\<lparr>err := Some ''Error: boom''\<rparr>) = Some ''Error: boom''"
    by simp
  from prefetch_failure_passed_to_next[of post_42_match "()" "Inl (Failure ''post 42 not found'')"
      "Failure ''post 42 not found''" development_globals post_42_request "Inl TypeError"] a
  have 1: "ssr_handler development_globals post_42_request post_42_match
     (Inl (Failure ''post 42 not found'')) (Inl TypeError)
   = (development_globals\<lparr>navigator := Some (user_agent post_42_request)\<rparr>, [FetchComponentData],
      NextError (Failure ''post 42 not found''))"
    by blast
  from prefetch_failure_passed_to_next[of "post_42_match\<lparr>err := Some ''Error: boom''\<rparr>" _ _ _
      development_globals post_42_request "Inl TypeError" "''Error: boom''"] b r
  have 2: \<open>ssr_handler development_globals post_42_request (post_42_match\<lparr>err := Some ''Error: boom''\<rparr>)
     (Inl (Failure ''post 42 not found'')) (Inl TypeError)
   = (development_globals, [RenderFullPage],
      Respond 500 []
        (page_top (helmet development_globals) []
           ''Server Error:<br><br><pre style="color:red">&#32;&#32;&#32;&#32;Error: boom</pre>''
         @ ''{}'' @ page_bottom [] ''/vendor.js'' ''/app.js''))\<close>
    by blast
  from 1 2 show ?thesis by (rule conjI)
qed

subsection \<open>C3: embedding of the serialized state\<close>




subsection \<open>C4: the embedded state read back\<close>



subsection \<open>C5: events of other kinds\<close>

text \<open>
  Claim C5 as stated (an incoming client event whose kind is none of the three mutation
  kinds is forwarded to no connection) fails: the event \<^verbatim>\<open>refresh bloglist\<close> of socket 1 is
  forwarded to all three connected sockets.
\<close>

theorem refresh_event_is_forwarded:
  "on_event three_connected 1 RefreshBloglist
   = Inr (three_connected,
          [(1, Message ''refresh bloglist'' []), (2, Message ''refresh bloglist'' []),
           (3, Message ''refresh bloglist'' [])])"
  by (simp add: on_refresh_bloglist_def io_sockets_emit_def three_connected_def)

text \<open>
  Claim C5, amended: for every \<^verbatim>\<open>action\<close> event whose \<^verbatim>\<open>type\<close> can be read and is none of
  \<^verbatim>\<open>server/addPost\<close>, \<^verbatim>\<open>server/updatePost\<close>, \<^verbatim>\<open>server/addComment\<close>, the handler forwards
  nothing, raises no error and leaves the server unchanged.
\<close>

theorem unknown_action_type_ignored:
  assumes "get_prop action ''type'' = Inr ty"
    and "ty \<notin> {JStr ''server/addPost'', JStr ''server/updatePost'', JStr ''server/addComment''}"
  shows "on_event w a (Action action) = Inr (w, [])"
  using on_action_other[OF assms, of w a] by simp

text \<open>Claim C5, amended, on an action of type \<^verbatim>\<open>server/deletePost\<close>.\<close>

theorem unknown_action_type_ignored_witness:
  "on_event three_connected 1 (Action (JObj [(''type'', JStr ''server/deletePost'')]))
   = Inr (three_connected, [])"
  by (rule unknown_action_type_ignored[of _ "JStr ''server/deletePost''"]) simp_all

subsection \<open>C6: a second disconnect\<close>

text \<open>
  Claim C6 (unregistering a handle that is not in the registry leaves the registry
  unchanged) against the code: with socket 1 alone in \<^verbatim>\<open>clients\<close>, the disconnect handler of
  the absent socket 2 computes \<^verbatim>\<open>indexOf\<close> as \<^verbatim>\<open>-1\<close> and \<^verbatim>\<open>splice(-1, 1)\<close> removes socket 1;
  after two sockets connect and socket 2 disconnects twice, \<^verbatim>\<open>clients\<close> is empty although
  socket 1 is still connected.
\<close>

theorem double_disconnect_removes_other_client:
  "unregister 2 [1] = []
   \<and> run init_server [(1, Connection), (2, Connection), (2, Disconnect), (2, Disconnect)]
     = Inr (\<lparr>clients = [], connected = [1]\<rparr>, [])"
  by (simp add: unregister_present unregister_absent register_def init_server_def)

subsection \<open>C9: register, unregister and the fan-out targets\<close>

text \<open>
  Claim C9 as stated fails in both parts: a registry that already holds handle 2 still
  holds it after registering and unregistering 2, and the targets of a mutation event of
  socket 1 include socket 1.
\<close>

theorem registry_keeps_handle_and_fanout_includes_origin:
  "2 \<in> set (unregister 2 (register 2 [2, 5]))
   \<and> 1 \<in> set (fanout_targets three_connected 1 (Action add_post_7))"
  by (simp add: unregister_present register_def fanout_targets_def on_action_def
      relay_if_def io_sockets_emit_def three_connected_def add_post_7_def)

text \<open>
  Claim C9, amended: for every registry that does not already hold \<open>h\<close>, registering \<open>h\<close>
  and then unregistering \<open>h\<close> gives the registry back, which is without \<open>h\<close>; the fan-out
  targets of a mutation event that originates at \<open>h\<close> are all the connected sockets, with
  no exception for \<open>h\<close>.
\<close>

theorem register_unregister_and_fanout:
  "(h \<notin> set cs \<longrightarrow>
      unregister h (register h cs) = cs \<and> h \<notin> set (unregister h (register h cs)))
   \<and> (get_prop action ''type'' = Inr (JStr t) \<and> (t, T, f) \<in> set mutation_kinds \<longrightarrow>
      fanout_targets w h (Action action) = connected w)"
proof (intro conjI impI)
  assume "h \<notin> set cs"
  then show "unregister h (register h cs) = cs" "h \<notin> set (unregister h (register h cs))"
    by (simp_all add: register_then_unregister)
next
  assume a: "get_prop action ''type'' = Inr (JStr t) \<and> (t, T, f) \<in> set mutation_kinds"
  then obtain p where p: "get_prop action f = Inr p" using get_prop_total by blast
  from a p on_action_kind[of action t T f p w h]
  show "fanout_targets w h (Action action) = connected w"
    by (simp add: fanout_targets_def comp_def)
qed

text \<open>Claim C9, amended, on handle 2, the registry of 1 and 3, and three connected sockets.\<close>

theorem register_unregister_and_fanout_witness:
  "unregister 2 (register 2 [1, 3]) = [1, 3]
   \<and> 2 \<notin> set (unregister 2 (register 2 [1, 3]))
   \<and> fanout_targets three_connected 2 (Action add_post_7) = [1, 2, 3]"
  using register_unregister_and_fanout[of 2 "[1, 3]" add_post_7 "''server/addPost''"
      "''ADD_POST''" "''post''" three_connected]
  by (simp add: add_post_7_def mutation_kinds_def three_connected_def)

subsection \<open>C7: what the page assembler depends on\<close>

text \<open>
  Claim C7 as stated (the document is a function of markup, snapshot, environment flag and
  manifest alone, with no read of mutable global state) fails: two processes with the same
  environment, given the same markup and snapshot, produce different documents when
  react-helmet holds different titles.
\<close>

theorem page_depends_on_helmet_state:
  "process_env development_globals = process_env other_title_globals
   \<and> renderFullPage development_globals ''<p>hi</p>'' (JObj [])
     \<noteq> renderFullPage other_title_globals ''<p>hi</p>'' (JObj [])"
  by (simp add: renderFullPage_development production_def development_globals_def
      other_title_globals_def page_top_def)

text \<open>
  Claim C7, amended: the document is determined by the markup, the snapshot, and two
  pieces of global state that the assembler reads: the head fragments that react-helmet
  holds and \<^verbatim>\<open>process.env\<close>; two calls that agree on these produce the same document or
  the same error.
\<close>

theorem page_determined_by_arguments_head_and_env:
  assumes "helmet g = helmet g'" "process_env g = process_env g'"
  shows "renderFullPage g html st = renderFullPage g' html st"
  using assms by (rule renderFullPage_reads)

text \<open>Claim C7, amended, on two processes that differ in \<^verbatim>\<open>global.navigator\<close> only.\<close>

theorem page_determined_by_arguments_head_and_env_witness:
  "renderFullPage development_globals ''<p>hi</p>'' post_42_state
   = renderFullPage (development_globals\<lparr>navigator := Some (Some ''Mozilla/5.0'')\<rparr>)
       ''<p>hi</p>'' post_42_state"
  by (rule page_determined_by_arguments_head_and_env) simp_all

subsection \<open>C8: redirects\<close>

text \<open>
  Claim C8: when route matching reports no error and a redirect location, the handler
  answers with \<^verbatim>\<open>res.redirect(302, pathname + search)\<close>, calls neither the prefetch nor the
  renderer nor the page assembler, and leaves the global state as it was.
\<close>

theorem redirect_without_rendering:
  assumes "err m = None" "redirectLocation m = Some loc"
  shows "ssr_handler g req m fetched rendered = (g, [], Redirect 302 (pathname loc @ search loc))"
  using assms by (simp add: ssr_handler_def)

text \<open>Claim C8 on a redirect to \<^verbatim>\<open>/login?next=/posts\<close>.\<close>

theorem redirect_without_rendering_witness:
  "ssr_handler development_globals post_42_request
     (post_42_match\<lparr>redirectLocation := Some \<lparr>pathname = ''/login'', search = ''?next=/posts''\<rparr>,
                     renderProps := None\<rparr>)
     (Inl TypeError) (Inl TypeError)
   = (development_globals, [], Redirect 302 ''/login?next=/posts'')"
  using redirect_without_rendering[of
      "post_42_match\<lparr>redirectLocation := Some \<lparr>pathname = ''/login'', search = ''?next=/posts''\<rparr>,
                     renderProps := None\<rparr>"
      "\<lparr>pathname = ''/login'', search = ''?next=/posts''\<rparr>"
      development_globals post_42_request "Inl TypeError" "Inl TypeError"]
  by (simp add: post_42_match_def)

subsection \<open>C10: the refresh events\<close>

text \<open>
  Claim C10: a \<^verbatim>\<open>refresh bloglist\<close> or \<^verbatim>\<open>refresh commentlist\<close> event of any socket is emitted
  again under the same name to every connected socket, and the sender, when connected, is
  among the targets.
\<close>

theorem refresh_events_relayed_to_all:
  "on_event w a RefreshBloglist
     = Inr (w, map (\<lambda>s. (s, Message ''refresh bloglist'' [])) (connected w))
   \<and> on_event w a RefreshCommentlist
     = Inr (w, map (\<lambda>s. (s, Message ''refresh commentlist'' [])) (connected w))
   \<and> (a \<in> set (connected w) \<longrightarrow>
        a \<in> set (fanout_targets w a RefreshBloglist)
        \<and> a \<in> set (fanout_targets w a RefreshCommentlist))"
  by (simp add: on_refresh_bloglist_def on_refresh_commentlist_def io_sockets_emit_def
      fanout_targets_def comp_def)

text \<open>Claim C10 on three connected sockets of which the second sends.\<close>

theorem refresh_events_relayed_to_all_witness:
  "on_event three_connected 2 RefreshCommentlist
     = Inr (three_connected,
            [(1, Message ''refresh commentlist'' []), (2, Message ''refresh commentlist'' []),
             (3, Message ''refresh commentlist'' [])])
   \<and> 2 \<in> set (fanout_targets three_connected 2 RefreshBloglist)"
  using refresh_events_relayed_to_all[of three_connected 2]
  by (simp add: three_connected_def)

end
